theory Spec2Isabelle
  imports Main "HOL-Library.Char_ord" "HOL-Library.List_Lexorder" "HOL-Library.Sublist" "HOL-Library.AList"
begin

section \<open>Coverage aggregation of the ATT&CK matrix endpoint\<close>

text \<open>
  The development embeds \<^verbatim>\<open>get_ultimate_matrix\<close> of \<^verbatim>\<open>blueprints/matrix.py\<close>: the two
  SQL statements it sends (the tactics query and the techniques query with the roll-up of
  sub-technique rules) and the Python that turns their rows into technique objects, tactic
  objects and the global statistics.

  The database is a record of tables, each table a list of rows. A query is the list of the
  rows of its \<^verbatim>\<open>FROM\<close> clause (a comprehension over the joined tables), filtered by its
  \<^verbatim>\<open>WHERE\<close> clause, grouped by its \<^verbatim>\<open>GROUP BY\<close> key and aggregated. Only the columns the
  coverage numbers depend on are kept; names, descriptions, versions and time stamps of the
  rows are copied by the source into the response unchanged and are left out.

  String comparison in MySQL follows the collation of the column, which neither the schema
  in \<^verbatim>\<open>models/database.py\<close> nor the connection string names. The model compares strings
  character by character (a binary collation), for \<^verbatim>\<open>=\<close>, for \<^verbatim>\<open>LIKE\<close> and for
  \<^verbatim>\<open>ORDER BY\<close>.
\<close>

subsection \<open>SQL values: NULL and three-valued logic\<close>

text \<open>A nullable SQL value is an option, \<open>None\<close> being NULL; so is a truth value.\<close>

type_synonym sql_bool = "bool option"

definition sql_eq :: "'a option \<Rightarrow> 'a option \<Rightarrow> sql_bool" where
  "sql_eq a b = (case a of None \<Rightarrow> None | Some x \<Rightarrow> (case b of None \<Rightarrow> None | Some y \<Rightarrow> Some (x = y)))"

definition sql_ne :: "'a option \<Rightarrow> 'a option \<Rightarrow> sql_bool" where
  "sql_ne a b = (case a of None \<Rightarrow> None | Some x \<Rightarrow> (case b of None \<Rightarrow> None | Some y \<Rightarrow> Some (x \<noteq> y)))"

definition sql_and :: "sql_bool \<Rightarrow> sql_bool \<Rightarrow> sql_bool" where
  "sql_and a b =
     (if a = Some False \<or> b = Some False then Some False
      else if a = Some True \<and> b = Some True then Some True
      else None)"

definition sql_or :: "sql_bool \<Rightarrow> sql_bool \<Rightarrow> sql_bool" where
  "sql_or a b =
     (if a = Some True \<or> b = Some True then Some True
      else if a = Some False \<and> b = Some False then Some False
      else None)"

text \<open>\<^verbatim>\<open>WHERE\<close>, \<^verbatim>\<open>ON\<close> and \<^verbatim>\<open>CASE WHEN\<close> take a row only when the condition is TRUE.\<close>

definition is_true :: "sql_bool \<Rightarrow> bool" where
  "is_true b = (b = Some True)"

fun coalesce :: "'a option \<Rightarrow> 'a option \<Rightarrow> 'a option" where
  "coalesce (Some x) b = Some x"
| "coalesce None b = b"

text \<open>A column of a row that a \<^verbatim>\<open>LEFT JOIN\<close> may have left NULL.\<close>

definition col :: "('r \<Rightarrow> 'a) \<Rightarrow> 'r option \<Rightarrow> 'a option" where
  "col f r = map_option f r"

text \<open>
  \<^verbatim>\<open>LEFT JOIN tbl ON cond\<close>, for one row of the left side: the matching rows of \<open>tbl\<close>, or
  one all-NULL row when there is none.
\<close>

definition left_join :: "('r \<Rightarrow> bool) \<Rightarrow> 'r list \<Rightarrow> 'r option list" where
  "left_join on tbl = (case filter on tbl of [] \<Rightarrow> [None] | m # ms \<Rightarrow> map Some (m # ms))"

text \<open>\<^verbatim>\<open>COUNT(DISTINCT e)\<close> over the rows of a group: NULLs are not counted.\<close>

definition non_null :: "'a option list \<Rightarrow> 'a list" where
  "non_null vs = concat (map (\<lambda>v. case v of None \<Rightarrow> [] | Some x \<Rightarrow> [x]) vs)"

definition count_distinct :: "'a option list \<Rightarrow> nat" where
  "count_distinct vs = length (remdups (non_null vs))"

subsection \<open>LIKE\<close>

text \<open>
  \<open>sql_like s p\<close> is \<^verbatim>\<open>s LIKE p\<close>: in the pattern \<^verbatim>\<open>%\<close> matches any run of characters,
  \<^verbatim>\<open>_\<close> matches one character, and a backslash makes the character after it literal
  (a backslash at the very end stands for itself).
\<close>

fun sql_like :: "string \<Rightarrow> string \<Rightarrow> bool" where
  "sql_like s [] = (s = [])"
| "sql_like s (p # ps) =
     (if p = CHR ''%'' then
        sql_like s ps \<or> (case s of [] \<Rightarrow> False | c # cs \<Rightarrow> sql_like cs (p # ps))
      else if p = CHR ''_'' then
        (case s of [] \<Rightarrow> False | c # cs \<Rightarrow> sql_like cs ps)
      else if p = CHR 0x5C \<and> ps \<noteq> [] then
        (case s of [] \<Rightarrow> False | c # cs \<Rightarrow> c = hd ps \<and> sql_like cs (tl ps))
      else
        (case s of [] \<Rightarrow> False | c # cs \<Rightarrow> c = p \<and> sql_like cs ps))"


subsection \<open>Tables\<close>

text \<open>\<^verbatim>\<open>models/database.py\<close>: the columns of each table that the matrix queries read.\<close>

record technique =
  tech_id :: string
  attack_id :: string
  deprecated :: bool
  revoked :: bool
  platforms :: "string list"

record tactic_row =
  tac_id :: string
  x_mitre_shortname :: string

record technique_tactic =
  tt_technique_id :: string
  tt_tactic_id :: string

record correlation_rule =
  rule_id :: string
  technique_id :: string
  active :: bool
  status :: string
  severity :: string

record comment =
  comment_id :: nat
  entity_type :: string
  entity_id :: string
  comment_status :: string

record database =
  techniques :: "technique list"
  tactics :: "tactic_row list"
  technique_tactics :: "technique_tactic list"
  correlation_rules :: "correlation_rule list"
  comments :: "comment list"

text \<open>
  The request arguments, as the handler reads them. \<open>platform_filter\<close> and
  \<open>tactic_filter\<close> are \<open>None\<close> when the argument is absent.
\<close>

record params =
  platform_filter :: "string option"
  coverage_filter :: string
  tactic_filter :: "string option"
  include_deprecated :: bool
  include_subtechniques :: bool
  include_statistics :: bool

text \<open>Python's truth value of \<^verbatim>\<open>str | None\<close>.\<close>

definition truthy :: "string option \<Rightarrow> bool" where
  "truthy s = (case s of None \<Rightarrow> False | Some v \<Rightarrow> v \<noteq> [])"

text \<open>
  \<^verbatim>\<open>JSON_CONTAINS(platforms, '"<name>"')\<close> on a JSON array of strings.
\<close>

definition json_contains :: "string list \<Rightarrow> string \<Rightarrow> bool" where
  "json_contains arr v = (v \<in> set arr)"

text \<open>The kill-chain rank both queries order tactics by.\<close>

definition tactic_rank :: "string \<Rightarrow> nat" where
  "tactic_rank s =
     (if s = ''initial-access'' then 1
      else if s = ''execution'' then 2
      else if s = ''persistence'' then 3
      else if s = ''privilege-escalation'' then 4
      else if s = ''defense-evasion'' then 5
      else if s = ''credential-access'' then 6
      else if s = ''discovery'' then 7
      else if s = ''lateral-movement'' then 8
      else if s = ''collection'' then 9
      else if s = ''command-and-control'' then 10
      else if s = ''exfiltration'' then 11
      else if s = ''impact'' then 12
      else 99)"


subsection \<open>The techniques query\<close>

text \<open>
  A row of the \<^verbatim>\<open>FROM\<close> clause: a technique, one of its tactic links with the tactic
  (both \<^verbatim>\<open>INNER JOIN\<close>), and one row or NULL from each of the three \<^verbatim>\<open>LEFT JOIN\<close>s.
\<close>

record tq_row =
  tq_t :: technique
  tq_tt :: technique_tactic
  tq_tac :: tactic_row
  cr_own :: "correlation_rule option"
  cr_sub :: "correlation_rule option"
  tq_c :: "comment option"

text \<open>\<^verbatim>\<open>ON t.attack_id = cr_own.technique_id\<close>\<close>

definition own_on :: "technique \<Rightarrow> correlation_rule \<Rightarrow> bool" where
  "own_on t r = (attack_id t = technique_id r)"

text \<open>
  \<^verbatim>\<open>ON cr_sub.technique_id LIKE CONCAT(t.attack_id, '.%') AND t.attack_id NOT LIKE '%.%'\<close>
\<close>

definition sub_on :: "technique \<Rightarrow> correlation_rule \<Rightarrow> bool" where
  "sub_on t r =
     (sql_like (technique_id r) (attack_id t @ ''.%'') \<and> \<not> sql_like (attack_id t) ''%.%'')"

text \<open>
  \<^verbatim>\<open>ON c.entity_type = 'technique' AND c.entity_id = t.attack_id AND c.status != 'deleted'\<close>
\<close>

definition comment_on :: "technique \<Rightarrow> comment \<Rightarrow> bool" where
  "comment_on t m =
     (entity_type m = ''technique'' \<and> entity_id m = attack_id t \<and> comment_status m \<noteq> ''deleted'')"

definition technique_rows :: "database \<Rightarrow> technique \<Rightarrow> tq_row list" where
  "technique_rows db t =
     [\<lparr>tq_t = t, tq_tt = l, tq_tac = k, cr_own = ow, cr_sub = sb, tq_c = m\<rparr>.
        l \<leftarrow> filter (\<lambda>l. tech_id t = tt_technique_id l) (technique_tactics db),
        k \<leftarrow> filter (\<lambda>k. tt_tactic_id l = tac_id k) (tactics db),
        ow \<leftarrow> left_join (own_on t) (correlation_rules db),
        sb \<leftarrow> left_join (sub_on t) (correlation_rules db),
        m \<leftarrow> left_join (comment_on t) (comments db)]"

definition techniques_from :: "database \<Rightarrow> tq_row list" where
  "techniques_from db = concat (map (technique_rows db) (techniques db))"

text \<open>
  The \<^verbatim>\<open>WHERE\<close> clause the handler assembles: \<^verbatim>\<open>t.revoked = 0\<close> always, the other
  conditions by the request arguments.
\<close>

definition where_clause :: "params \<Rightarrow> tq_row \<Rightarrow> bool" where
  "where_clause p row =
     (revoked (tq_t row) = False
      \<and> (if include_deprecated p then True else deprecated (tq_t row) = False)
      \<and> (case platform_filter p of None \<Rightarrow> True
          | Some pf \<Rightarrow> if pf = [] then True else json_contains (platforms (tq_t row)) pf)
      \<and> (case tactic_filter p of None \<Rightarrow> True
          | Some tf \<Rightarrow> if tf = [] then True else x_mitre_shortname (tq_tac row) = tf))"

text \<open>
  \<^verbatim>\<open>CASE WHEN cr.active = 1 AND cr.status != 'deleted' THEN cr.id END\<close>
\<close>

definition active_case :: "correlation_rule option \<Rightarrow> string option" where
  "active_case cr =
     (if is_true (sql_and (sql_eq (col active cr) (Some True))
                          (sql_ne (col status cr) (Some ''deleted'')))
      then col rule_id cr else None)"

text \<open>
  \<^verbatim>\<open>CASE WHEN (cr_own.active = 1 OR cr_sub.active = 1)
       AND (cr_own.status != 'deleted' OR cr_sub.status != 'deleted')
       AND (COALESCE(cr_own.severity, cr_sub.severity) = '<sev>')
       THEN COALESCE(cr_own.id, cr_sub.id) END\<close>
\<close>

definition severity_case :: "string \<Rightarrow> correlation_rule option \<Rightarrow> correlation_rule option \<Rightarrow> string option" where
  "severity_case sev ow sb =
     (if is_true
          (sql_and
             (sql_and
                (sql_or (sql_eq (col active ow) (Some True)) (sql_eq (col active sb) (Some True)))
                (sql_or (sql_ne (col status ow) (Some ''deleted''))
                        (sql_ne (col status sb) (Some ''deleted''))))
             (sql_eq (coalesce (col severity ow) (col severity sb)) (Some sev)))
      then coalesce (col rule_id ow) (col rule_id sb) else None)"

text \<open>A row of the result: the technique and the aggregates over its group.\<close>

record technique_result =
  res_t :: technique
  own_total_rules :: nat
  own_active_rules :: nat
  sub_total_rules :: nat
  sub_active_rules :: nat
  critical_rules_count :: nat
  high_rules_count :: nat
  medium_rules_count :: nat
  low_rules_count :: nat
  comments_count :: nat

definition aggregate :: "technique \<Rightarrow> tq_row list \<Rightarrow> technique_result" where
  "aggregate g rows =
     \<lparr>res_t = g,
      own_total_rules = count_distinct (map (\<lambda>row. col rule_id (cr_own row)) rows),
      own_active_rules = count_distinct (map (\<lambda>row. active_case (cr_own row)) rows),
      sub_total_rules = count_distinct (map (\<lambda>row. col rule_id (cr_sub row)) rows),
      sub_active_rules = count_distinct (map (\<lambda>row. active_case (cr_sub row)) rows),
      critical_rules_count =
        count_distinct (map (\<lambda>row. severity_case ''critical'' (cr_own row) (cr_sub row)) rows),
      high_rules_count =
        count_distinct (map (\<lambda>row. severity_case ''high'' (cr_own row) (cr_sub row)) rows),
      medium_rules_count =
        count_distinct (map (\<lambda>row. severity_case ''medium'' (cr_own row) (cr_sub row)) rows),
      low_rules_count =
        count_distinct (map (\<lambda>row. severity_case ''low'' (cr_own row) (cr_sub row)) rows),
      comments_count = count_distinct (map (\<lambda>row. col comment_id (tq_c row)) rows)\<rparr>"

text \<open>
  \<^verbatim>\<open>GROUP BY\<close> lists every selected column of \<^verbatim>\<open>t\<close>, so a group is the rows of one
  technique; \<^verbatim>\<open>ORDER BY t.attack_id\<close> orders the groups.
\<close>

definition techniques_query :: "database \<Rightarrow> params \<Rightarrow> technique_result list" where
  "techniques_query db p =
     (let rows = filter (where_clause p) (techniques_from db);
          groups = sort_key attack_id (remdups (map tq_t rows))
      in map (\<lambda>g. aggregate g (filter (\<lambda>row. tq_t row = g) rows)) groups)"


text \<open>The rows of the group of technique \<open>g\<close>, as \<open>techniques_query\<close> forms it.\<close>

definition group_rows :: "database \<Rightarrow> params \<Rightarrow> technique \<Rightarrow> tq_row list" where
  "group_rows db p g = filter (\<lambda>row. tq_t row = g) (filter (where_clause p) (techniques_from db))"

subsection \<open>The tactics query\<close>

text \<open>
  A row of its \<^verbatim>\<open>FROM\<close> clause: a tactic and, through three \<^verbatim>\<open>LEFT JOIN\<close>s, a link, the
  linked technique and a rule of that technique, each of which may be NULL.
\<close>

record taq_row =
  taq_t :: tactic_row
  taq_tt :: "technique_tactic option"
  taq_tech :: "technique option"
  taq_cr :: "correlation_rule option"

text \<open>
  \<^verbatim>\<open>platform_json = f'"{platform_filter}"' if platform_filter else None\<close>
\<close>

definition platform_json :: "params \<Rightarrow> string option" where
  "platform_json p = (if truthy (platform_filter p) then platform_filter p else None)"

text \<open>
  \<^verbatim>\<open>ON tt.technique_id = tech.id AND tech.revoked = 0
      AND (:include_deprecated OR tech.deprecated = 0)
      AND (:platform_filter IS NULL OR JSON_CONTAINS(tech.platforms, :platform_json))\<close>
\<close>

definition tech_on :: "params \<Rightarrow> technique_tactic option \<Rightarrow> technique \<Rightarrow> bool" where
  "tech_on p tt tech =
     is_true
       (sql_and
          (sql_and
             (sql_and (sql_eq (col tt_technique_id tt) (Some (tech_id tech)))
                      (Some (revoked tech = False)))
             (sql_or (Some (include_deprecated p)) (Some (deprecated tech = False))))
          (sql_or (Some (platform_filter p = None))
                  (map_option (json_contains (platforms tech)) (platform_json p))))"

text \<open>
  \<^verbatim>\<open>ON tech.attack_id = cr.technique_id AND cr.active = 1 AND cr.status != 'deleted'\<close>
\<close>

definition cr_on :: "technique option \<Rightarrow> correlation_rule \<Rightarrow> bool" where
  "cr_on tech cr =
     is_true
       (sql_and
          (sql_and (sql_eq (col attack_id tech) (Some (technique_id cr)))
                   (Some (active cr = True)))
          (Some (status cr \<noteq> ''deleted'')))"

definition tactic_rows :: "database \<Rightarrow> params \<Rightarrow> tactic_row \<Rightarrow> taq_row list" where
  "tactic_rows db p t =
     [\<lparr>taq_t = t, taq_tt = l, taq_tech = tech, taq_cr = cr\<rparr>.
        l \<leftarrow> left_join (\<lambda>l. tac_id t = tt_tactic_id l) (technique_tactics db),
        tech \<leftarrow> left_join (tech_on p l) (techniques db),
        cr \<leftarrow> left_join (cr_on tech) (correlation_rules db)]"

text \<open>
  \<^verbatim>\<open>CASE WHEN cr.active = 1 AND cr.status != 'deleted' THEN tech.id END\<close>
\<close>

definition covered_case :: "technique option \<Rightarrow> correlation_rule option \<Rightarrow> string option" where
  "covered_case tech cr =
     (if is_true (sql_and (sql_eq (col active cr) (Some True))
                          (sql_ne (col status cr) (Some ''deleted'')))
      then col tech_id tech else None)"

record tactic_result =
  res_tac :: tactic_row
  techniques_count :: nat
  covered_techniques_count :: nat

definition tactic_aggregate :: "tactic_row \<Rightarrow> taq_row list \<Rightarrow> tactic_result" where
  "tactic_aggregate g rows =
     \<lparr>res_tac = g,
      techniques_count = count_distinct (map (\<lambda>row. col tt_technique_id (taq_tt row)) rows),
      covered_techniques_count =
        count_distinct (map (\<lambda>row. covered_case (taq_tech row) (taq_cr row)) rows)\<rparr>"

text \<open>
  One group per tactic, ordered by the kill-chain rank. SQL leaves the order of tactics of
  equal rank open; the model keeps them in table order.
\<close>

definition tactics_query :: "database \<Rightarrow> params \<Rightarrow> tactic_result list" where
  "tactics_query db p =
     (let rows = concat (map (tactic_rows db p) (tactics db));
          groups = sort_key (\<lambda>g. tactic_rank (x_mitre_shortname g)) (remdups (map taq_t rows))
      in map (\<lambda>g. tactic_aggregate g (filter (\<lambda>row. taq_t row = g) rows)) groups)"

subsection \<open>Technique objects\<close>

text \<open>Python dictionaries are association lists in insertion order.\<close>

type_synonym 'v dict = "(string \<times> 'v) list"

record coverage =
  total_rules :: nat
  active_rules :: nat
  own_rules :: nat
  sub_rules :: nat
  rules_by_severity :: "nat dict"
  has_coverage :: bool
  coverage_level :: string

record technique_obj =
  obj_id :: string
  obj_attack_id :: string
  obj_deprecated :: bool
  obj_revoked :: bool
  obj_platforms :: "string list"
  obj_coverage :: coverage
  obj_comments_count :: nat

definition coverage_level_of :: "nat \<Rightarrow> string" where
  "coverage_level_of n =
     (if n \<ge> 5 then ''excellent''
      else if n \<ge> 3 then ''good''
      else if n \<ge> 1 then ''basic''
      else ''none'')"

definition technique_coverage :: "technique_result \<Rightarrow> coverage" where
  "technique_coverage tech =
     (let own_total = own_total_rules tech;
          own_active = own_active_rules tech;
          sub_total = sub_total_rules tech;
          sub_active = sub_active_rules tech;
          total = own_total + sub_total;
          act = own_active + sub_active
      in \<lparr>total_rules = total,
          active_rules = act,
          own_rules = own_total,
          sub_rules = sub_total,
          rules_by_severity =
            [(''critical'', critical_rules_count tech),
             (''high'', high_rules_count tech),
             (''medium'', medium_rules_count tech),
             (''low'', low_rules_count tech)],
          has_coverage = (act > 0),
          coverage_level = coverage_level_of act\<rparr>)"

definition technique_object :: "technique_result \<Rightarrow> technique_obj" where
  "technique_object tech =
     \<lparr>obj_id = tech_id (res_t tech),
      obj_attack_id = attack_id (res_t tech),
      obj_deprecated = deprecated (res_t tech),
      obj_revoked = revoked (res_t tech),
      obj_platforms = platforms (res_t tech),
      obj_coverage = technique_coverage tech,
      obj_comments_count = comments_count tech\<rparr>"

text \<open>The three collections the loop over \<^verbatim>\<open>techniques_raw\<close> fills.\<close>

record loop_state =
  parent_techniques :: "technique_obj list"
  subtechniques_by_parent :: "technique_obj list dict"
  all_techniques_dict :: "technique_obj dict"

text \<open>
  \<^verbatim>\<open>if parent_id not in d: d[parent_id] = []\<close> followed by
  \<^verbatim>\<open>d[parent_id].append(technique_obj)\<close>
\<close>

definition append_sub :: "technique_obj list dict \<Rightarrow> string \<Rightarrow> technique_obj \<Rightarrow> technique_obj list dict" where
  "append_sub d parent_id obj =
     AList.update parent_id (case map_of d parent_id of None \<Rightarrow> [obj] | Some subs \<Rightarrow> subs @ [obj]) d"

text \<open>One pass of the loop body; \<^verbatim>\<open>continue\<close> leaves the state as it is.\<close>

definition process_technique :: "params \<Rightarrow> technique_result \<Rightarrow> loop_state \<Rightarrow> loop_state" where
  "process_technique p tech st =
     (let obj = technique_object tech;
          act = active_rules (obj_coverage obj);
          aid = attack_id (res_t tech)
      in if coverage_filter p = ''covered'' \<and> act = 0 then st
         else if coverage_filter p = ''uncovered'' \<and> act > 0 then st
         else if CHR ''.'' \<in> set aid then
           st\<lparr>all_techniques_dict := AList.update aid obj (all_techniques_dict st),
              subtechniques_by_parent :=
                append_sub (subtechniques_by_parent st) (takeWhile (\<lambda>c. c \<noteq> CHR ''.'') aid) obj\<rparr>
         else
           st\<lparr>all_techniques_dict := AList.update aid obj (all_techniques_dict st),
              parent_techniques := parent_techniques st @ [obj]\<rparr>)"

definition process_techniques :: "params \<Rightarrow> technique_result list \<Rightarrow> loop_state" where
  "process_techniques p techniques_raw =
     fold (process_technique p) techniques_raw
       \<lparr>parent_techniques = [], subtechniques_by_parent = [], all_techniques_dict = []\<rparr>"


subsection \<open>Tactic objects\<close>

text \<open>
  The percentages are Python floats. The model keeps the expression instead of a rounded
  value: \<open>Round1 c n\<close> stands for \<^verbatim>\<open>round((c / n) * 100, 1)\<close> on the integers \<open>c\<close> and
  \<open>n\<close>, and \<open>Int_zero\<close> for the integer \<^verbatim>\<open>0\<close> that the source yields without dividing.
\<close>

datatype percentage = Int_zero | Round1 nat nat

record tactic_obj =
  tactic_obj_id :: string
  shortname :: string
  obj_techniques_count :: nat
  obj_covered_techniques_count :: nat
  coverage_percentage :: percentage

definition tactic_object :: "tactic_result \<Rightarrow> tactic_obj" where
  "tactic_object tac =
     \<lparr>tactic_obj_id = tac_id (res_tac tac),
      shortname = x_mitre_shortname (res_tac tac),
      obj_techniques_count = techniques_count tac,
      obj_covered_techniques_count = covered_techniques_count tac,
      coverage_percentage =
        (if techniques_count tac > 0
         then Round1 (covered_techniques_count tac) (techniques_count tac)
         else Int_zero)\<rparr>"

subsection \<open>Global statistics\<close>

datatype error = KeyError string

text \<open>\<^verbatim>\<open>d[k] += n\<close>: Python raises \<^verbatim>\<open>KeyError\<close> when \<open>k\<close> is not a key of \<open>d\<close>.\<close>

definition dict_add :: "nat dict \<Rightarrow> string \<Rightarrow> nat \<Rightarrow> error + nat dict" where
  "dict_add d k n =
     (case map_of d k of None \<Rightarrow> Inl (KeyError k) | Some v \<Rightarrow> Inr (AList.update k (v + n) d))"

text \<open>
  \<^verbatim>\<open>for severity, count in tech["coverage"]["rules_by_severity"].items():
      rules_by_severity[severity] += count\<close>
\<close>

fun add_items :: "nat dict \<Rightarrow> nat dict \<Rightarrow> error + nat dict" where
  "add_items acc [] = Inr acc"
| "add_items acc ((k, n) # items) =
     (case dict_add acc k n of Inl e \<Rightarrow> Inl e | Inr acc' \<Rightarrow> add_items acc' items)"

text \<open>
  The loop over \<^verbatim>\<open>all_techniques_dict.values()\<close> that fills \<^verbatim>\<open>coverage_levels\<close> and
  \<^verbatim>\<open>rules_by_severity\<close>.
\<close>

fun count_levels :: "nat dict \<Rightarrow> nat dict \<Rightarrow> technique_obj list \<Rightarrow> error + (nat dict \<times> nat dict)" where
  "count_levels levels sevs [] = Inr (levels, sevs)"
| "count_levels levels sevs (tech # rest) =
     (case dict_add levels (coverage_level (obj_coverage tech)) 1 of
        Inl e \<Rightarrow> Inl e
      | Inr levels' \<Rightarrow>
          (case add_items sevs (rules_by_severity (obj_coverage tech)) of
             Inl e \<Rightarrow> Inl e
           | Inr sevs' \<Rightarrow> count_levels levels' sevs' rest))"

record statistics =
  total_techniques :: nat
  stat_parent_techniques :: nat
  stat_subtechniques :: nat
  covered_techniques :: nat
  uncovered_techniques :: int
  stat_coverage_percentage :: percentage
  tactics_total :: nat
  tactics_with_techniques :: nat
  coverage_levels :: "nat dict"
  stat_rules_by_severity :: "nat dict"
  filters_applied :: "string option \<times> string \<times> string option \<times> bool"

definition compute_statistics :: "params \<Rightarrow> loop_state \<Rightarrow> tactic_obj list \<Rightarrow> error + statistics" where
  "compute_statistics p st tactics_out =
     (let vals = map snd (all_techniques_dict st);
          total = length (all_techniques_dict st);
          covered = length (filter (\<lambda>t. has_coverage (obj_coverage t)) vals);
          parent_count = length (parent_techniques st);
          subtechniques_count = sum_list (map (\<lambda>(k, subs). length subs) (subtechniques_by_parent st))
      in case count_levels
                [(''excellent'', 0), (''good'', 0), (''basic'', 0), (''none'', 0)]
                [(''critical'', 0), (''high'', 0), (''medium'', 0), (''low'', 0)]
                vals of
           Inl e \<Rightarrow> Inl e
         | Inr (levels, sevs) \<Rightarrow>
             Inr \<lparr>total_techniques = total,
                  stat_parent_techniques = parent_count,
                  stat_subtechniques = subtechniques_count,
                  covered_techniques = covered,
                  uncovered_techniques = int total - int covered,
                  stat_coverage_percentage = (if total > 0 then Round1 covered total else Int_zero),
                  tactics_total = length tactics_out,
                  tactics_with_techniques =
                    length (filter (\<lambda>t. obj_techniques_count t > 0) tactics_out),
                  coverage_levels = levels,
                  stat_rules_by_severity = sevs,
                  filters_applied =
                    (platform_filter p, coverage_filter p, tactic_filter p, include_deprecated p)\<rparr>)"

subsection \<open>The response\<close>

text \<open>
  With \<^verbatim>\<open>include_subtechniques\<close> the source adds the keys \<^verbatim>\<open>subtechniques\<close> and
  \<^verbatim>\<open>subtechniques_count\<close> to every object of \<^verbatim>\<open>parent_techniques\<close>. Those objects are
  the very objects held by \<^verbatim>\<open>all_techniques_dict\<close>, so the entries of \<^verbatim>\<open>techniques\<close> whose
  ID has no dot show the keys as well. An entry is an object with the list under the added
  key, \<open>None\<close> when the key is absent.
\<close>

record technique_entry =
  entry_obj :: technique_obj
  entry_subtechniques :: "technique_obj list option"

definition make_entry :: "params \<Rightarrow> technique_obj list dict \<Rightarrow> technique_obj \<Rightarrow> technique_entry" where
  "make_entry p by_parent obj =
     \<lparr>entry_obj = obj,
      entry_subtechniques =
        (if include_subtechniques p \<and> CHR ''.'' \<notin> set (obj_attack_id obj)
         then (case map_of by_parent (obj_attack_id obj) of
                 None \<Rightarrow> Some [] | Some subs \<Rightarrow> Some subs)
         else None)\<rparr>"

record response =
  resp_tactics :: "tactic_obj list"
  resp_techniques :: "technique_entry list"
  resp_parent_techniques :: "technique_entry list"
  generated_at :: string
  resp_statistics :: "statistics option"
  resp_subtechniques_by_parent :: "technique_obj list dict option"

text \<open>
  The handler. Its inputs are the database, the request arguments and the clock that
  \<^verbatim>\<open>datetime.utcnow()\<close> reads; an exception in the body ends in the error response, here
  \<open>Inl\<close>.
\<close>

definition get_ultimate_matrix :: "string \<Rightarrow> database \<Rightarrow> params \<Rightarrow> error + response" where
  "get_ultimate_matrix now db p =
     (let tactics_raw = tactics_query db p;
          techniques_raw = techniques_query db p;
          st = process_techniques p techniques_raw;
          tactics_out = map tactic_object tactics_raw;
          entry = make_entry p (subtechniques_by_parent st);
          resp = \<lparr>resp_tactics = tactics_out,
                  resp_techniques = map (entry \<circ> snd) (all_techniques_dict st),
                  resp_parent_techniques = map entry (parent_techniques st),
                  generated_at = now,
                  resp_statistics = None,
                  resp_subtechniques_by_parent =
                    (if include_subtechniques p then Some (subtechniques_by_parent st) else None)\<rparr>
      in if include_statistics p then
           (case compute_statistics p st tactics_out of
              Inl e \<Rightarrow> Inl e
            | Inr stats \<Rightarrow> Inr (resp\<lparr>resp_statistics := Some stats\<rparr>))
         else Inr resp)"


subsection \<open>Example databases\<close>

text \<open>
  The scenario of the specification: technique T1505 without rules of its own, its
  sub-technique T1505.001 with two active rules of severity high, both linked to the
  persistence tactic.
\<close>

definition demo_db :: database where
  "demo_db =
     \<lparr>techniques =
        [\<lparr>tech_id = ''u1'', attack_id = ''T1505'', deprecated = False, revoked = False,
          platforms = [''Windows'']\<rparr>,
         \<lparr>tech_id = ''u2'', attack_id = ''T1505.001'', deprecated = False, revoked = False,
          platforms = [''Windows'']\<rparr>],
      tactics = [\<lparr>tac_id = ''TA0003'', x_mitre_shortname = ''persistence''\<rparr>],
      technique_tactics =
        [\<lparr>tt_technique_id = ''u1'', tt_tactic_id = ''TA0003''\<rparr>,
         \<lparr>tt_technique_id = ''u2'', tt_tactic_id = ''TA0003''\<rparr>],
      correlation_rules =
        [\<lparr>rule_id = ''r1'', technique_id = ''T1505.001'', active = True, status = ''active'',
          severity = ''high''\<rparr>,
         \<lparr>rule_id = ''r2'', technique_id = ''T1505.001'', active = True, status = ''active'',
          severity = ''high''\<rparr>],
      comments = []\<rparr>"

text \<open>The request without arguments: every argument at its default.\<close>

definition default_params :: params where
  "default_params =
     \<lparr>platform_filter = None, coverage_filter = ''all'', tactic_filter = None,
      include_deprecated = False, include_subtechniques = True, include_statistics = True\<rparr>"

definition demo_response :: response where
  "demo_response = projr (get_ultimate_matrix ''2025-10-23T13:00:00'' demo_db default_params)"

text \<open>
  The technique of the specification's scenario, and its sub-technique, as entries of that
  response.
\<close>

definition demo_parent :: technique_entry where
  "demo_parent = resp_techniques demo_response ! 0"

definition demo_sub :: technique_entry where
  "demo_sub = resp_techniques demo_response ! 1"






text \<open>
  A parent technique with an active rule of severity high and an inactive rule of severity
  medium of its own, and an active rule of severity critical on its sub-technique.
\<close>

definition severity_db :: database where
  "severity_db =
     \<lparr>techniques =
        [\<lparr>tech_id = ''u1'', attack_id = ''T1505'', deprecated = False, revoked = False,
          platforms = []\<rparr>,
         \<lparr>tech_id = ''u2'', attack_id = ''T1505.001'', deprecated = False, revoked = False,
          platforms = []\<rparr>],
      tactics = [\<lparr>tac_id = ''TA0003'', x_mitre_shortname = ''persistence''\<rparr>],
      technique_tactics =
        [\<lparr>tt_technique_id = ''u1'', tt_tactic_id = ''TA0003''\<rparr>,
         \<lparr>tt_technique_id = ''u2'', tt_tactic_id = ''TA0003''\<rparr>],
      correlation_rules =
        [\<lparr>rule_id = ''r1'', technique_id = ''T1505'', active = True, status = ''active'',
          severity = ''high''\<rparr>,
         \<lparr>rule_id = ''r2'', technique_id = ''T1505.001'', active = True, status = ''active'',
          severity = ''critical''\<rparr>,
         \<lparr>rule_id = ''r3'', technique_id = ''T1505'', active = False, status = ''draft'',
          severity = ''medium''\<rparr>],
      comments = []\<rparr>"

definition severity_response :: response where
  "severity_response = projr (get_ultimate_matrix ''2025-10-23T13:00:00'' severity_db default_params)"

definition severity_parent :: technique_entry where
  "severity_parent = resp_techniques severity_response ! 0"

text \<open>
  The rules that the specification counts for a technique ID in a severity bucket: active,
  not deleted, attached to the ID or to an ID that starts with it and a dot, and of that
  severity.
\<close>

definition active_rules_of_severity :: "correlation_rule list \<Rightarrow> string \<Rightarrow> string \<Rightarrow> correlation_rule list" where
  "active_rules_of_severity rules tid sev =
     filter (\<lambda>r. (technique_id r = tid \<or> prefix (tid @ ''.'') (technique_id r))
                  \<and> active r \<and> status r \<noteq> ''deleted'' \<and> severity r = sev) rules"

text \<open>
  A tactic linked to two techniques: T1505, covered only through the rule of its
  sub-technique, and the revoked T1078.
\<close>

definition tactic_db :: database where
  "tactic_db =
     \<lparr>techniques =
        [\<lparr>tech_id = ''u1'', attack_id = ''T1505'', deprecated = False, revoked = False,
          platforms = []\<rparr>,
         \<lparr>tech_id = ''u2'', attack_id = ''T1505.001'', deprecated = False, revoked = False,
          platforms = []\<rparr>,
         \<lparr>tech_id = ''u3'', attack_id = ''T1078'', deprecated = False, revoked = True,
          platforms = []\<rparr>],
      tactics = [\<lparr>tac_id = ''TA0003'', x_mitre_shortname = ''persistence''\<rparr>],
      technique_tactics =
        [\<lparr>tt_technique_id = ''u1'', tt_tactic_id = ''TA0003''\<rparr>,
         \<lparr>tt_technique_id = ''u3'', tt_tactic_id = ''TA0003''\<rparr>],
      correlation_rules =
        [\<lparr>rule_id = ''r1'', technique_id = ''T1505.001'', active = True, status = ''active'',
          severity = ''high''\<rparr>],
      comments = []\<rparr>"

definition tactic_response :: response where
  "tactic_response = projr (get_ultimate_matrix ''2025-10-23T13:00:00'' tactic_db default_params)"

text \<open>
  A technique with one active rule, and a revoked technique with three active rules, in the
  same tactic.
\<close>

definition revoked_db :: database where
  "revoked_db =
     \<lparr>techniques =
        [\<lparr>tech_id = ''u1'', attack_id = ''T1078'', deprecated = False, revoked = False,
          platforms = []\<rparr>,
         \<lparr>tech_id = ''u2'', attack_id = ''T1190'', deprecated = False, revoked = True,
          platforms = []\<rparr>],
      tactics = [\<lparr>tac_id = ''TA0001'', x_mitre_shortname = ''initial-access''\<rparr>],
      technique_tactics =
        [\<lparr>tt_technique_id = ''u1'', tt_tactic_id = ''TA0001''\<rparr>,
         \<lparr>tt_technique_id = ''u2'', tt_tactic_id = ''TA0001''\<rparr>],
      correlation_rules =
        [\<lparr>rule_id = ''r1'', technique_id = ''T1078'', active = True, status = ''active'',
          severity = ''low''\<rparr>,
         \<lparr>rule_id = ''r2'', technique_id = ''T1190'', active = True, status = ''active'',
          severity = ''high''\<rparr>,
         \<lparr>rule_id = ''r3'', technique_id = ''T1190'', active = True, status = ''active'',
          severity = ''high''\<rparr>,
         \<lparr>rule_id = ''r4'', technique_id = ''T1190'', active = True, status = ''active'',
          severity = ''critical''\<rparr>],
      comments = []\<rparr>"

definition revoked_response :: response where
  "revoked_response = projr (get_ultimate_matrix ''2025-10-23T13:00:00'' revoked_db default_params)"

section \<open>Properties\<close>

subsection \<open>Where the objects of a response come from\<close>

lemma set_update_subset: "set (AList.update k v al) \<subseteq> insert (k, v) (set al)"
  by (induction al) auto

lemma process_technique_dict:
  "snd ` set (all_techniques_dict (process_technique p tech st))
     \<subseteq> insert (technique_object tech) (snd ` set (all_techniques_dict st))"
proof -
  have "snd ` set (AList.update k (technique_object tech) (all_techniques_dict st))
     \<subseteq> insert (technique_object tech) (snd ` set (all_techniques_dict st))" for k
    using set_update_subset [of k "technique_object tech" "all_techniques_dict st"] by force
  then show ?thesis
    by (auto simp: process_technique_def Let_def)
qed

lemma process_technique_parents:
  "set (parent_techniques (process_technique p tech st))
     \<subseteq> insert (technique_object tech) (set (parent_techniques st))"
  by (auto simp: process_technique_def Let_def)

lemma fold_dict:
  "snd ` set (all_techniques_dict (fold (process_technique p) raw st))
     \<subseteq> snd ` set (all_techniques_dict st) \<union> technique_object ` set raw"
proof (induction raw arbitrary: st)
  case Nil
  then show ?case by simp
next
  case (Cons tech raw)
  show ?case
    using Cons.IH [of "process_technique p tech st"] process_technique_dict [of p tech st]
    by auto
qed

lemma fold_parents:
  "set (parent_techniques (fold (process_technique p) raw st))
     \<subseteq> set (parent_techniques st) \<union> technique_object ` set raw"
proof (induction raw arbitrary: st)
  case Nil
  then show ?case by simp
next
  case (Cons tech raw)
  show ?case
    using Cons.IH [of "process_technique p tech st"] process_technique_parents [of p tech st]
    by auto
qed

text \<open>
  Every entry of \<^verbatim>\<open>techniques\<close> and of \<^verbatim>\<open>parent_techniques\<close> in a response is the object
  built from one row of the techniques query.
\<close>

lemma response_objects:
  assumes "get_ultimate_matrix now db p = Inr resp"
    and "e \<in> set (resp_techniques resp) \<union> set (resp_parent_techniques resp)"
  shows "\<exists>tech \<in> set (techniques_query db p). entry_obj e = technique_object tech"
proof -
  let ?st = "process_techniques p (techniques_query db p)"
  have techs: "resp_techniques resp
      = map (make_entry p (subtechniques_by_parent ?st) \<circ> snd) (all_techniques_dict ?st)"
    and pars: "resp_parent_techniques resp
      = map (make_entry p (subtechniques_by_parent ?st)) (parent_techniques ?st)"
    using assms(1)
    by (auto simp: get_ultimate_matrix_def Let_def split: if_splits sum.splits)
  have "entry_obj e \<in> snd ` set (all_techniques_dict ?st) \<union> set (parent_techniques ?st)"
  proof -
    have "entry_obj (make_entry p bp obj) = obj" for bp obj
      by (simp add: make_entry_def)
    then show ?thesis
      using assms(2) unfolding techs pars by (force simp: image_iff)
  qed
  moreover have "snd ` set (all_techniques_dict ?st)
      \<subseteq> technique_object ` set (techniques_query db p)"
    using fold_dict [of p "techniques_query db p"
        "\<lparr>parent_techniques = [], subtechniques_by_parent = [], all_techniques_dict = []\<rparr>"]
    by (simp add: process_techniques_def)
  moreover have "set (parent_techniques ?st) \<subseteq> technique_object ` set (techniques_query db p)"
    using fold_parents [of p "techniques_query db p"
        "\<lparr>parent_techniques = [], subtechniques_by_parent = [], all_techniques_dict = []\<rparr>"]
    by (simp add: process_techniques_def)
  ultimately show ?thesis by auto
qed

lemma demo_response_ok:
  "get_ultimate_matrix ''2025-10-23T13:00:00'' demo_db default_params = Inr demo_response"
  by code_simp

lemma demo_parent_entry:
  "hd (resp_techniques demo_response)
     \<in> set (resp_techniques demo_response) \<union> set (resp_parent_techniques demo_response)"
  by code_simp

subsection \<open>Coverage levels\<close>

text \<open>
  Claim C5. For every technique object of a response, \<^verbatim>\<open>coverage_level\<close> is
  \<^verbatim>\<open>"excellent"\<close> exactly when \<^verbatim>\<open>active_rules\<close> is at least 5, \<^verbatim>\<open>"good"\<close> exactly when it
  is 3 or 4, \<^verbatim>\<open>"basic"\<close> exactly when it is 1 or 2, and \<^verbatim>\<open>"none"\<close> exactly when it is 0.
\<close>

theorem coverage_level_thresholds:
  assumes "get_ultimate_matrix now db p = Inr resp"
    and "e \<in> set (resp_techniques resp) \<union> set (resp_parent_techniques resp)"
  shows "(coverage_level (obj_coverage (entry_obj e)) = ''excellent'')
           = (active_rules (obj_coverage (entry_obj e)) \<ge> 5)
       \<and> (coverage_level (obj_coverage (entry_obj e)) = ''good'')
           = (active_rules (obj_coverage (entry_obj e)) \<in> {3, 4})
       \<and> (coverage_level (obj_coverage (entry_obj e)) = ''basic'')
           = (active_rules (obj_coverage (entry_obj e)) \<in> {1, 2})
       \<and> (coverage_level (obj_coverage (entry_obj e)) = ''none'')
           = (active_rules (obj_coverage (entry_obj e)) = 0)"
proof -
  obtain tech where "entry_obj e = technique_object tech"
    using response_objects [OF assms] by blast
  then have lvl: "coverage_level (obj_coverage (entry_obj e))
      = coverage_level_of (active_rules (obj_coverage (entry_obj e)))"
    by (simp add: technique_object_def technique_coverage_def Let_def)
  show ?thesis
    unfolding lvl coverage_level_of_def by auto
qed

theorem coverage_level_thresholds_witness:
  "get_ultimate_matrix ''2025-10-23T13:00:00'' demo_db default_params = Inr demo_response
   \<and> hd (resp_techniques demo_response)
       \<in> set (resp_techniques demo_response) \<union> set (resp_parent_techniques demo_response)
   \<and> active_rules (obj_coverage (entry_obj (hd (resp_techniques demo_response)))) = 2
   \<and> (coverage_level (obj_coverage (entry_obj (hd (resp_techniques demo_response)))) = ''basic'')
       = (active_rules (obj_coverage (entry_obj (hd (resp_techniques demo_response)))) \<in> {1, 2})"
proof -
  have "active_rules (obj_coverage (entry_obj (hd (resp_techniques demo_response)))) = 2"
    by code_simp
  then show ?thesis
    using coverage_level_thresholds [OF demo_response_ok demo_parent_entry]
      demo_response_ok demo_parent_entry
    by simp
qed

subsection \<open>Counting over the rows of a group\<close>

lemma set_non_null: "set (non_null vs) = {x. Some x \<in> set vs}"
  by (induction vs) (auto simp: non_null_def split: option.splits)

lemma count_distinct_card: "count_distinct vs = card {x. Some x \<in> set vs}"
  by (simp add: count_distinct_def length_remdups_card_conv set_non_null)

lemma set_left_join:
  "set (left_join on tbl) = (if filter on tbl = [] then {None} else Some ` {r \<in> set tbl. on r})"
proof (cases "filter on tbl")
  case Nil
  then show ?thesis by (simp add: left_join_def)
next
  case (Cons m ms)
  have "set (map Some (filter on tbl)) = Some ` {r \<in> set tbl. on r}" by auto
  with Cons show ?thesis by (simp add: left_join_def)
qed

lemma left_join_nonempty: "left_join on tbl \<noteq> []"
  by (simp add: left_join_def split: list.splits)

lemma left_join_col:
  "{x. Some x \<in> col f ` set (left_join on tbl)} = f ` {r \<in> set tbl. on r}"
proof (cases "filter on tbl = []")
  case True
  then have "{r \<in> set tbl. on r} = {}" by (auto simp: filter_empty_conv)
  with True show ?thesis by (auto simp: set_left_join col_def)
next
  case False
  then show ?thesis by (auto simp: set_left_join col_def image_iff)
qed

lemma active_case_Some:
  "active_case (Some r) = (if active r \<and> status r \<noteq> ''deleted'' then Some (rule_id r) else None)"
  by (auto simp: active_case_def col_def sql_and_def sql_eq_def sql_ne_def is_true_def)

lemma active_case_None: "active_case None = None"
  by (simp add: active_case_def col_def sql_and_def sql_eq_def sql_ne_def is_true_def)

lemma left_join_active:
  "{x. Some x \<in> active_case ` set (left_join on tbl)}
     = rule_id ` {r \<in> set tbl. on r \<and> active r \<and> status r \<noteq> ''deleted''}"
proof (cases "filter on tbl = []")
  case True
  then have "{r \<in> set tbl. on r} = {}" by (auto simp: filter_empty_conv)
  with True show ?thesis by (auto simp: set_left_join active_case_None)
next
  case False
  then show ?thesis by (auto simp: set_left_join active_case_Some image_iff split: if_splits)
qed


lemma in_technique_rows:
  "row \<in> set (technique_rows db t) \<longleftrightarrow>
     tq_t row = t
     \<and> tq_tt row \<in> set (technique_tactics db) \<and> tech_id t = tt_technique_id (tq_tt row)
     \<and> tq_tac row \<in> set (tactics db) \<and> tt_tactic_id (tq_tt row) = tac_id (tq_tac row)
     \<and> cr_own row \<in> set (left_join (own_on t) (correlation_rules db))
     \<and> cr_sub row \<in> set (left_join (sub_on t) (correlation_rules db))
     \<and> tq_c row \<in> set (left_join (comment_on t) (comments db))"
proof (cases row)
  case (fields t' l k ow sb m)
  show ?thesis
    unfolding fields technique_rows_def
    by (simp add: image_iff Bex_def) blast
qed

lemma in_group_rows:
  "row \<in> set (group_rows db p g) \<longleftrightarrow>
     g \<in> set (techniques db) \<and> row \<in> set (technique_rows db g) \<and> where_clause p row"
  by (auto simp: group_rows_def techniques_from_def in_technique_rows)

lemma where_clause_own [simp]: "where_clause p (row\<lparr>cr_own := ow\<rparr>) = where_clause p row"
  by (simp add: where_clause_def split: option.splits)

lemma where_clause_sub [simp]: "where_clause p (row\<lparr>cr_sub := sb\<rparr>) = where_clause p row"
  by (simp add: where_clause_def split: option.splits)

lemma group_rows_pairs:
  assumes "group_rows db p g \<noteq> []"
  shows "(\<lambda>row. (cr_own row, cr_sub row)) ` set (group_rows db p g)
    = set (left_join (own_on g) (correlation_rules db))
      \<times> set (left_join (sub_on g) (correlation_rules db))"
proof
  show "(\<lambda>row. (cr_own row, cr_sub row)) ` set (group_rows db p g)
    \<subseteq> set (left_join (own_on g) (correlation_rules db))
      \<times> set (left_join (sub_on g) (correlation_rules db))"
    by (auto simp: in_group_rows in_technique_rows)
next
  from assms obtain r0 where r0: "r0 \<in> set (group_rows db p g)"
    by (cases "group_rows db p g") auto
  show "set (left_join (own_on g) (correlation_rules db))
      \<times> set (left_join (sub_on g) (correlation_rules db))
    \<subseteq> (\<lambda>row. (cr_own row, cr_sub row)) ` set (group_rows db p g)"
  proof
    fix x assume x: "x \<in> set (left_join (own_on g) (correlation_rules db))
      \<times> set (left_join (sub_on g) (correlation_rules db))"
    let ?row = "r0\<lparr>cr_own := fst x, cr_sub := snd x\<rparr>"
    have "?row \<in> set (group_rows db p g)"
      using r0 x by (auto simp: in_group_rows in_technique_rows)
    moreover have "(cr_own ?row, cr_sub ?row) = x" by simp
    ultimately show "x \<in> (\<lambda>row. (cr_own row, cr_sub row)) ` set (group_rows db p g)"
      by (metis (mono_tags, lifting) image_eqI)
  qed
qed

lemma group_rows_own:
  assumes "group_rows db p g \<noteq> []"
  shows "cr_own ` set (group_rows db p g) = set (left_join (own_on g) (correlation_rules db))"
proof -
  have "cr_own ` set (group_rows db p g)
      = fst ` (\<lambda>row. (cr_own row, cr_sub row)) ` set (group_rows db p g)"
    by (simp add: image_image)
  also have "\<dots> = set (left_join (own_on g) (correlation_rules db))"
    unfolding group_rows_pairs [OF assms]
    using left_join_nonempty [of "sub_on g" "correlation_rules db"]
    by (cases "left_join (sub_on g) (correlation_rules db)") (auto simp: image_iff)
  finally show ?thesis .
qed

lemma group_rows_sub:
  assumes "group_rows db p g \<noteq> []"
  shows "cr_sub ` set (group_rows db p g) = set (left_join (sub_on g) (correlation_rules db))"
proof -
  have "cr_sub ` set (group_rows db p g)
      = snd ` (\<lambda>row. (cr_own row, cr_sub row)) ` set (group_rows db p g)"
    by (simp add: image_image)
  also have "\<dots> = set (left_join (sub_on g) (correlation_rules db))"
    unfolding group_rows_pairs [OF assms]
    using left_join_nonempty [of "own_on g" "correlation_rules db"]
    by (cases "left_join (own_on g) (correlation_rules db)") (auto simp: image_iff)
  finally show ?thesis .
qed

lemma techniques_query_rows:
  assumes "tech \<in> set (techniques_query db p)"
  shows "\<exists>g. tech = aggregate g (group_rows db p g) \<and> group_rows db p g \<noteq> []"
proof -
  let ?rows = "filter (where_clause p) (techniques_from db)"
  from assms obtain g where g: "g \<in> tq_t ` set ?rows"
    and tech: "tech = aggregate g (filter (\<lambda>row. tq_t row = g) ?rows)"
    by (auto simp: techniques_query_def Let_def)
  from g have "filter (\<lambda>row. tq_t row = g) ?rows \<noteq> []"
    by (auto simp: filter_empty_conv)
  with tech show ?thesis by (auto simp: group_rows_def)
qed

lemma aggregate_res_t [simp]: "res_t (aggregate g rows) = g"
  by (simp add: aggregate_def)

lemma count_map: "count_distinct (map f rows) = card {x. Some x \<in> f ` set rows}"
  by (simp add: count_distinct_card)

lemma own_total_card:
  assumes "group_rows db p g \<noteq> []"
  shows "own_total_rules (aggregate g (group_rows db p g))
    = card (rule_id ` {r \<in> set (correlation_rules db). own_on g r})"
proof -
  have "(\<lambda>row. col rule_id (cr_own row)) ` set (group_rows db p g)
      = col rule_id ` set (left_join (own_on g) (correlation_rules db))"
    using group_rows_own [OF assms] by (simp add: image_image [symmetric])
  then show ?thesis
    by (simp add: aggregate_def count_map left_join_col)
qed

lemma sub_total_card:
  assumes "group_rows db p g \<noteq> []"
  shows "sub_total_rules (aggregate g (group_rows db p g))
    = card (rule_id ` {r \<in> set (correlation_rules db). sub_on g r})"
proof -
  have "(\<lambda>row. col rule_id (cr_sub row)) ` set (group_rows db p g)
      = col rule_id ` set (left_join (sub_on g) (correlation_rules db))"
    using group_rows_sub [OF assms] by (simp add: image_image [symmetric])
  then show ?thesis
    by (simp add: aggregate_def count_map left_join_col)
qed

lemma own_active_card:
  assumes "group_rows db p g \<noteq> []"
  shows "own_active_rules (aggregate g (group_rows db p g))
    = card (rule_id ` {r \<in> set (correlation_rules db).
                        own_on g r \<and> active r \<and> status r \<noteq> ''deleted''})"
proof -
  have "(\<lambda>row. active_case (cr_own row)) ` set (group_rows db p g)
      = active_case ` set (left_join (own_on g) (correlation_rules db))"
    using group_rows_own [OF assms] by (simp add: image_image [symmetric])
  then show ?thesis
    by (simp add: aggregate_def count_map left_join_active)
qed

lemma sub_active_card:
  assumes "group_rows db p g \<noteq> []"
  shows "sub_active_rules (aggregate g (group_rows db p g))
    = card (rule_id ` {r \<in> set (correlation_rules db).
                        sub_on g r \<and> active r \<and> status r \<noteq> ''deleted''})"
proof -
  have "(\<lambda>row. active_case (cr_sub row)) ` set (group_rows db p g)
      = active_case ` set (left_join (sub_on g) (correlation_rules db))"
    using group_rows_sub [OF assms] by (simp add: image_image [symmetric])
  then show ?thesis
    by (simp add: aggregate_def count_map left_join_active)
qed

subsection \<open>LIKE on the patterns of the roll-up join\<close>





declare sql_like.simps [simp del]







subsection \<open>Rule counts of a technique object\<close>


lemma object_fields:
  "obj_attack_id (technique_object (aggregate g rows)) = attack_id g"
  "total_rules (obj_coverage (technique_object tech)) = own_total_rules tech + sub_total_rules tech"
  "active_rules (obj_coverage (technique_object tech)) = own_active_rules tech + sub_active_rules tech"
  "own_rules (obj_coverage (technique_object tech)) = own_total_rules tech"
  "sub_rules (obj_coverage (technique_object tech)) = sub_total_rules tech"
  by (simp_all add: technique_object_def technique_coverage_def Let_def)

lemma demo_entries:
  "demo_parent \<in> set (resp_techniques demo_response) \<union> set (resp_parent_techniques demo_response)"
  "demo_sub \<in> set (resp_techniques demo_response) \<union> set (resp_parent_techniques demo_response)"
  by code_simp+







text \<open>
  Claim C10. For every technique object of a response, \<^verbatim>\<open>active_rules\<close> is at most
  \<^verbatim>\<open>total_rules\<close>; in the query row it is built from, the active count of the technique's
  own rules is at most their total, and the active count of the sub-technique rules is at
  most their total.
\<close>

theorem active_at_most_total:
  assumes "get_ultimate_matrix now db p = Inr resp"
    and "e \<in> set (resp_techniques resp) \<union> set (resp_parent_techniques resp)"
  shows "\<exists>tech \<in> set (techniques_query db p).
           entry_obj e = technique_object tech
           \<and> own_active_rules tech \<le> own_total_rules tech
           \<and> sub_active_rules tech \<le> sub_total_rules tech
           \<and> own_rules (obj_coverage (entry_obj e)) = own_total_rules tech
           \<and> sub_rules (obj_coverage (entry_obj e)) = sub_total_rules tech
           \<and> active_rules (obj_coverage (entry_obj e)) = own_active_rules tech + sub_active_rules tech
           \<and> active_rules (obj_coverage (entry_obj e)) \<le> total_rules (obj_coverage (entry_obj e))"
proof -
  obtain tech where tech: "tech \<in> set (techniques_query db p)"
    and obj: "entry_obj e = technique_object tech"
    using response_objects [OF assms] by blast
  obtain g where agg: "tech = aggregate g (group_rows db p g)" and ne: "group_rows db p g \<noteq> []"
    using techniques_query_rows [OF tech] by blast
  have fin: "finite (rule_id ` {r \<in> set (correlation_rules db). P r})" for P
    by simp
  have own: "own_active_rules tech \<le> own_total_rules tech"
    unfolding agg own_total_card [OF ne] own_active_card [OF ne]
    by (rule card_mono [OF fin]) auto
  have sub: "sub_active_rules tech \<le> sub_total_rules tech"
    unfolding agg sub_total_card [OF ne] sub_active_card [OF ne]
    by (rule card_mono [OF fin]) auto
  from own sub have "active_rules (obj_coverage (entry_obj e)) \<le> total_rules (obj_coverage (entry_obj e))"
    by (simp add: obj object_fields)
  with tech obj own sub show ?thesis
    by (auto simp: object_fields)
qed

theorem active_at_most_total_witness:
  "get_ultimate_matrix ''2025-10-23T13:00:00'' demo_db default_params = Inr demo_response
   \<and> demo_parent \<in> set (resp_techniques demo_response) \<union> set (resp_parent_techniques demo_response)
   \<and> active_rules (obj_coverage (entry_obj demo_parent)) = 2
   \<and> total_rules (obj_coverage (entry_obj demo_parent)) = 2
   \<and> (\<exists>tech \<in> set (techniques_query demo_db default_params).
         entry_obj demo_parent = technique_object tech
         \<and> own_active_rules tech \<le> own_total_rules tech
         \<and> sub_active_rules tech \<le> sub_total_rules tech
         \<and> own_rules (obj_coverage (entry_obj demo_parent)) = own_total_rules tech
         \<and> sub_rules (obj_coverage (entry_obj demo_parent)) = sub_total_rules tech
         \<and> active_rules (obj_coverage (entry_obj demo_parent))
             = own_active_rules tech + sub_active_rules tech
         \<and> active_rules (obj_coverage (entry_obj demo_parent))
             \<le> total_rules (obj_coverage (entry_obj demo_parent)))"
proof -
  have act: "active_rules (obj_coverage (entry_obj demo_parent)) = 2"
    by code_simp
  have total: "total_rules (obj_coverage (entry_obj demo_parent)) = 2"
    by code_simp
  show ?thesis
    using active_at_most_total [OF demo_response_ok demo_entries(1)]
      demo_response_ok demo_entries(1) act total
    by simp
qed

subsection \<open>The global statistics\<close>









subsection \<open>Revoked techniques\<close>

lemma technique_rows_techniques:
  "technique_rows (db\<lparr>techniques := ts\<rparr>) = technique_rows db"
  by (rule ext) (simp add: technique_rows_def)

lemma revoked_rows: "revoked t \<Longrightarrow> filter (where_clause p) (technique_rows db t) = []"
  by (auto simp: filter_empty_conv in_technique_rows where_clause_def)

lemma filter_concat_skip:
  assumes "\<And>x. x \<in> set xs \<Longrightarrow> \<not> Q x \<Longrightarrow> filter P (f x) = []"
  shows "filter P (concat (map f (filter Q xs))) = filter P (concat (map f xs))"
  using assms by (induction xs) auto

lemma techniques_query_revoked:
  "techniques_query (db\<lparr>techniques := filter (\<lambda>t. \<not> revoked t) (techniques db)\<rparr>) p
     = techniques_query db p"
proof -
  have "filter (where_clause p) (concat (map (technique_rows db) (filter (\<lambda>t. \<not> revoked t) (techniques db))))
      = filter (where_clause p) (concat (map (technique_rows db) (techniques db)))"
    by (rule filter_concat_skip) (simp add: revoked_rows)
  then show ?thesis
    by (simp add: techniques_query_def techniques_from_def technique_rows_techniques)
qed

lemma tech_on_not_revoked: "tech_on p l t \<Longrightarrow> \<not> revoked t"
  by (auto simp: tech_on_def is_true_def sql_and_def split: if_splits)

lemma left_join_tech_on:
  "left_join (tech_on p l) (filter (\<lambda>t. \<not> revoked t) ts) = left_join (tech_on p l) ts"
proof -
  have "filter (tech_on p l) (filter (\<lambda>t. \<not> revoked t) ts) = filter (tech_on p l) ts"
    unfolding filter_filter by (rule filter_cong) (auto dest: tech_on_not_revoked)
  then show ?thesis by (simp add: left_join_def)
qed

lemma tactic_rows_revoked:
  "tactic_rows (db\<lparr>techniques := filter (\<lambda>t. \<not> revoked t) (techniques db)\<rparr>) p
     = tactic_rows db p"
  by (rule ext) (simp add: tactic_rows_def left_join_tech_on)

lemma tactics_query_revoked:
  "tactics_query (db\<lparr>techniques := filter (\<lambda>t. \<not> revoked t) (techniques db)\<rparr>) p
     = tactics_query db p"
  by (simp add: tactics_query_def tactic_rows_revoked)

text \<open>
  Claim C7. A revoked technique contributes to no count of the global statistics, whatever
  rules reference it: the response, and with it \<^verbatim>\<open>total_techniques\<close>, the parent and
  sub-technique counts, the covered and uncovered counts, \<^verbatim>\<open>coverage_levels\<close> and
  \<^verbatim>\<open>rules_by_severity\<close>, is the same when the revoked techniques are taken out of the
  techniques table, for every database and every request.
\<close>

theorem revoked_excluded:
  "get_ultimate_matrix now (db\<lparr>techniques := filter (\<lambda>t. \<not> revoked t) (techniques db)\<rparr>) p
     = get_ultimate_matrix now db p"
  unfolding get_ultimate_matrix_def techniques_query_revoked tactics_query_revoked ..

theorem revoked_excluded_witness:
  "map revoked (techniques revoked_db) = [False, True]
   \<and> get_ultimate_matrix ''2025-10-23T13:00:00'' revoked_db default_params = Inr revoked_response
   \<and> map (\<lambda>e. obj_attack_id (entry_obj e)) (resp_techniques revoked_response) = [''T1078'']
   \<and> map_option total_techniques (resp_statistics revoked_response) = Some 1
   \<and> map_option stat_rules_by_severity (resp_statistics revoked_response)
       = Some [(''critical'', 0), (''high'', 0), (''medium'', 0), (''low'', 1)]
   \<and> get_ultimate_matrix ''2025-10-23T13:00:00''
         (revoked_db\<lparr>techniques := filter (\<lambda>t. \<not> revoked t) (techniques revoked_db)\<rparr>)
         default_params
       = get_ultimate_matrix ''2025-10-23T13:00:00'' revoked_db default_params"
proof -
  have "map revoked (techniques revoked_db) = [False, True]"
    by code_simp
  moreover have "get_ultimate_matrix ''2025-10-23T13:00:00'' revoked_db default_params
      = Inr revoked_response"
    by code_simp
  moreover have "map (\<lambda>e. obj_attack_id (entry_obj e)) (resp_techniques revoked_response)
      = [''T1078'']"
    by code_simp
  moreover have "map_option total_techniques (resp_statistics revoked_response) = Some 1"
    by code_simp
  moreover have "map_option stat_rules_by_severity (resp_statistics revoked_response)
      = Some [(''critical'', 0), (''high'', 0), (''medium'', 0), (''low'', 1)]"
    by code_simp
  ultimately show ?thesis
    using revoked_excluded [of "''2025-10-23T13:00:00''" revoked_db default_params]
    by (intro conjI)
qed

subsection \<open>The clock\<close>



subsection \<open>Where the handler departs from the claims\<close>


text \<open>
  Claim C3 (each severity bucket counts the active rules, own and sub-technique, of that
  severity) fails when a technique has rules of its own and sub-technique rules: the
  \<^verbatim>\<open>COALESCE\<close> takes id and severity from the own rule of the joined row, so the active
  critical rule of T1505.001 is in no bucket of T1505, and the inactive medium rule of T1505
  is counted because the sub-technique rule on its row is active.
\<close>

theorem severity_buckets_own_only:
  "get_ultimate_matrix ''2025-10-23T13:00:00'' severity_db default_params = Inr severity_response
   \<and> obj_attack_id (entry_obj severity_parent) = ''T1505''
   \<and> rules_by_severity (obj_coverage (entry_obj severity_parent))
       = [(''critical'', 0), (''high'', 1), (''medium'', 1), (''low'', 0)]
   \<and> map (\<lambda>sev. length (active_rules_of_severity (correlation_rules severity_db) ''T1505'' sev))
        [''critical'', ''high'', ''medium'', ''low'']
       = [1, 1, 0, 0]"
  by code_simp

text \<open>
  Claim C4 (a tactic's percentage is covered over total, the covered techniques counted
  with the roll-up and the total without the revoked techniques) fails on both counts: the
  tactics query counts the links, \<^verbatim>\<open>COUNT(DISTINCT tt.technique_id)\<close>, so the revoked T1078
  is in the total, and it joins the rules on \<^verbatim>\<open>tech.attack_id = cr.technique_id\<close> only, so
  T1505 is not covered for the tactic although its own object in the same response has
  coverage. The response reports \<^verbatim>\<open>round((0 / 2) * 100, 1)\<close> where the claim has
  \<^verbatim>\<open>round((1 / 1) * 100, 1)\<close>.
\<close>

theorem tactic_percentage_counts:
  "map (\<lambda>t. (attack_id t, revoked t)) (techniques tactic_db)
     = [(''T1505'', False), (''T1505.001'', False), (''T1078'', True)]
   \<and> get_ultimate_matrix ''2025-10-23T13:00:00'' tactic_db default_params = Inr tactic_response
   \<and> resp_tactics tactic_response
       = [\<lparr>tactic_obj_id = ''TA0003'', shortname = ''persistence'', obj_techniques_count = 2,
           obj_covered_techniques_count = 0, coverage_percentage = Round1 0 2\<rparr>]
   \<and> map (\<lambda>e. (obj_attack_id (entry_obj e), has_coverage (obj_coverage (entry_obj e))))
        (resp_techniques tactic_response)
       = [(''T1505'', True)]"
  by code_simp

end
